theory Spec2Isabelle
  imports Complex_Main "HOL-Library.Char_ord" "HOL-Library.List_Lexorder"
begin

section \<open>Library values the scripts depend on\<close>

text \<open>
  The three scripts call numpy, scikit-learn, pickle, os and requests. None of these is
  part of the repository, so each library call is a parameter of the model (the random
  source, the regressor fit, the file system, the HTTP endpoint) or a small definition of
  its documented behaviour (the label encoder). Python floats are modelled as reals: the
  properties below only use the order of the numbers and products with constants.
\<close>

datatype py_error =
    NotFittedError
  | ValueError string
  | FitError string
  | FileNotFoundError string
  | FileExistsError string
  | IsADirectoryError string
  | NotADirectoryError string
  | PermissionError string
  | NoSpaceLeftError string
  | PicklingError
  | UnpicklingError string
  | SystemExit int
  | KeyboardInterrupt


subsection \<open>sklearn.preprocessing.LabelEncoder\<close>

text \<open>
  \<^verbatim>\<open>LabelEncoder()\<close> is unfitted; \<^verbatim>\<open>fit(y)\<close> stores \<^verbatim>\<open>np.unique(y)\<close>, the sorted
  distinct labels, as \<^verbatim>\<open>classes_\<close>; \<^verbatim>\<open>transform\<close> maps a label to its position in
  \<^verbatim>\<open>classes_\<close> and raises on an unseen label. Strings are compared character by
  character on their codes, as Python compares them.
\<close>

record label_encoder =
  classes :: "string list option"

definition LabelEncoder :: label_encoder where
  "LabelEncoder = \<lparr>classes = None\<rparr>"

definition le_fit :: "label_encoder \<Rightarrow> string list \<Rightarrow> label_encoder" where
  "le_fit enc y = enc\<lparr>classes := Some (sort (remdups y))\<rparr>"

fun index_of :: "'a list \<Rightarrow> 'a \<Rightarrow> nat option" where
  "index_of [] y = None"
| "index_of (x # xs) y = (if x = y then Some 0 else map_option Suc (index_of xs y))"

definition le_transform :: "label_encoder \<Rightarrow> string \<Rightarrow> py_error + nat" where
  "le_transform enc y =
     (case classes enc of
        None \<Rightarrow> Inl NotFittedError
      | Some cs \<Rightarrow> (case index_of cs y of None \<Rightarrow> Inl (ValueError y) | Some i \<Rightarrow> Inr i))"

subsection \<open>Python values of the artifact dictionary\<close>

text \<open>
  The artifact is a dict whose values are strings, an integer, fitted regressors, label
  encoders and nested dicts. A dict is an association list in insertion order, as a dict
  literal builds it; \<open>'m\<close> is the type of a fitted regressor, which the scripts never
  look into.
\<close>

datatype 'm pyval =
    PyStr string
  | PyInt int
  | PyRegressor 'm
  | PyEncoder label_encoder
  | PyDict "(string \<times> 'm pyval) list"

type_synonym 'm artifact = "(string \<times> 'm pyval) list"

definition keys :: "(string \<times> 'v) list \<Rightarrow> string list" where
  "keys d = map fst d"

definition dict_get :: "(string \<times> 'v) list \<Rightarrow> string \<Rightarrow> 'v option" where
  "dict_get d k = map_of d k"

subsection \<open>numpy.random and the regressor fit\<close>

text \<open>
  \<open>'s\<close> is the state of numpy's process-wide random generator. \<^verbatim>\<open>np.random.seed\<close>
  replaces it; every draw reads it and advances it. \<open>rf_fit n_estimators random_state X y\<close>
  stands for \<^verbatim>\<open>MultiOutputRegressor(RandomForestRegressor(...)).fit(X, y)\<close>, which either
  returns the fitted regressor or raises; it is given its own \<^verbatim>\<open>random_state\<close> and so
  does not touch the process-wide generator.
\<close>

type_synonym matrix = "real list list"

record ('s, 'm) library =
  np_seed :: "nat \<Rightarrow> 's"
  np_random_sample :: "'s \<Rightarrow> real \<times> 's"
  np_randint :: "int \<Rightarrow> int \<Rightarrow> 's \<Rightarrow> int \<times> 's"
  np_normal :: "real \<Rightarrow> real \<Rightarrow> 's \<Rightarrow> real \<times> 's"
  rf_fit :: "nat \<Rightarrow> nat \<Rightarrow> matrix \<Rightarrow> matrix \<Rightarrow> py_error + 'm"

text \<open>\<open>draws f n\<close> makes \<open>n\<close> draws in sequence, threading the generator state.\<close>

fun draws :: "('s \<Rightarrow> 'a \<times> 's) \<Rightarrow> nat \<Rightarrow> 's \<Rightarrow> 'a list \<times> 's" where
  "draws f 0 s = ([], s)"
| "draws f (Suc n) s =
     (case f s of (x, s1) \<Rightarrow> (case draws f n s1 of (xs, s2) \<Rightarrow> (x # xs, s2)))"

text \<open>\<^verbatim>\<open>np.random.rand(n, m)\<close>: an \<open>n \<times> m\<close> array filled row by row.\<close>

definition np_rand :: "('s, 'm) library \<Rightarrow> nat \<Rightarrow> nat \<Rightarrow> 's \<Rightarrow> matrix \<times> 's" where
  "np_rand L n m = draws (draws (np_random_sample L) m) n"

text \<open>\<^verbatim>\<open>np.random.randint(lo, hi, n)\<close>: \<open>n\<close> integer draws.\<close>

definition np_randint_vec :: "('s, 'm) library \<Rightarrow> int \<Rightarrow> int \<Rightarrow> nat \<Rightarrow> 's \<Rightarrow> int list \<times> 's" where
  "np_randint_vec L lo hi n = draws (np_randint L lo hi) n"

text \<open>
  \<^verbatim>\<open>X[:, j] = col\<close> and \<^verbatim>\<open>X[:, j] *= c\<close>. The column assigned always has as many
  entries as the matrix has rows (both are made with \<^verbatim>\<open>n_samples\<close>), so \<open>zip\<close> drops
  nothing; the integers are stored as floats.
\<close>

definition set_column :: "nat \<Rightarrow> int list \<Rightarrow> matrix \<Rightarrow> matrix" where
  "set_column j col X = map (\<lambda>(row, v). row[j := real_of_int v]) (zip X col)"

definition scale_column :: "nat \<Rightarrow> real \<Rightarrow> matrix \<Rightarrow> matrix" where
  "scale_column j c X = map (\<lambda>row. row[j := row ! j * c]) X"

text \<open>\<^verbatim>\<open>A * [c0, c1, c2]\<close>: numpy broadcasts the row of factors over the rows of \<open>A\<close>.\<close>

definition broadcast_mult :: "matrix \<Rightarrow> real list \<Rightarrow> matrix" where
  "broadcast_mult A cs = map (\<lambda>row. map (\<lambda>(x, c). x * c) (zip row cs)) A"

section \<open>The fallback builders\<close>

definition metals :: "string list" where
  "metals = [''Aluminium'', ''Steel'', ''Copper'', ''Zinc'', ''Lead'', ''Nickel'', ''Tin'', ''Gold'']"

definition processes :: "string list" where
  "processes = [''Primary'', ''Recycled'', ''Hybrid'']"

definition eol_options :: "string list" where
  "eol_options = [''Recycled'', ''Landfilled'', ''Reused'']"

record dataset =
  X_train :: matrix
  y_env :: matrix
  y_circ :: matrix

subsection \<open>create\_fallback\_model.py\<close>

text \<open>
  The per-row choices of the two target loops of \<^verbatim>\<open>create_simple_fallback_model\<close>.
  Column 1 of a row is its Process\_Type code; every row has 13 columns.
\<close>

definition process_factor :: "real list \<Rightarrow> real" where
  "process_factor row = (if row ! 1 = 1 then 0.3 else 1.0)"

definition base_circ :: "real list \<Rightarrow> real" where
  "base_circ row = (if row ! 1 = 1 then 0.8 else 0.3)"

definition recycled_content_mean :: "real list \<Rightarrow> real" where
  "recycled_content_mean row = (if row ! 1 = 1 then 70 else 20)"

text \<open>\<^verbatim>\<open>for i in range(n_samples): ... y_env[i] = [...]\<close>, one row of \<open>X_train\<close> at a time.\<close>

fun env_targets :: "('s, 'm) library \<Rightarrow> matrix \<Rightarrow> 's \<Rightarrow> matrix \<times> 's" where
  "env_targets L [] s = ([], s)"
| "env_targets L (row # rows) s =
     (case np_normal L (50 * process_factor row) 15 s of (energy, s1) \<Rightarrow>
      case np_normal L (5 * process_factor row) 2 s1 of (emissions, s2) \<Rightarrow>
      case np_normal L (20 * process_factor row) 8 s2 of (water, s3) \<Rightarrow>
      case env_targets L rows s3 of (ys, s4) \<Rightarrow>
        ([max 1 energy, max 0.1 emissions, max 0.5 water] # ys, s4))"

fun circ_targets :: "('s, 'm) library \<Rightarrow> matrix \<Rightarrow> 's \<Rightarrow> matrix \<times> 's" where
  "circ_targets L [] s = ([], s)"
| "circ_targets L (row # rows) s =
     (case np_normal L (base_circ row) 0.1 s of (circularity, s1) \<Rightarrow>
      case np_normal L (recycled_content_mean row) 15 s1 of (recycled_content, s2) \<Rightarrow>
      case np_normal L (base_circ row) 0.1 s2 of (reuse_potential, s3) \<Rightarrow>
      case circ_targets L rows s3 of (ys, s4) \<Rightarrow>
        ([max 0 (min 1 circularity), max 0 (min 100 recycled_content),
          max 0 (min 1 reuse_potential)] # ys, s4))"

text \<open>
  The data generation of \<^verbatim>\<open>create_simple_fallback_model\<close> from the generator state
  \<open>s0\<close> on, with \<open>n_samples\<close> rows. In the source both are local constants: the
  function below it fixes them.
\<close>

definition synthetic_data :: "('s, 'm) library \<Rightarrow> nat \<Rightarrow> 's \<Rightarrow> dataset \<times> 's" where
  "synthetic_data L n_samples s0 =
     (case np_rand L n_samples 13 s0 of (X0, s1) \<Rightarrow>
      case np_randint_vec L 0 (int (length metals)) n_samples s1 of (c0, s2) \<Rightarrow>
      case np_randint_vec L 0 (int (length processes)) n_samples s2 of (c1, s3) \<Rightarrow>
      case np_randint_vec L 0 (int (length eol_options)) n_samples s3 of (c2, s4) \<Rightarrow>
      let X = scale_column 6 5 (scale_column 5 30 (scale_column 4 20 (scale_column 3 2000
                (set_column 2 c2 (set_column 1 c1 (set_column 0 c0 X0))))))
      in
      case env_targets L X s4 of (ye, s5) \<Rightarrow>
      case circ_targets L X s5 of (yc, s6) \<Rightarrow>
        (\<lparr>X_train = X, y_env = ye, y_circ = yc\<rparr>, s6))"

text \<open>
  \<open>g\<close> is the state the process-wide generator is in when the function is called;
  \<^verbatim>\<open>np.random.seed(42)\<close> overwrites it and \<^verbatim>\<open>n_samples = 1000\<close>.
\<close>

definition simple_training_data :: "('s, 'm) library \<Rightarrow> 's \<Rightarrow> dataset \<times> 's" where
  "simple_training_data L g = synthetic_data L 1000 (np_seed L 42)"

definition simple_model_data :: "'m \<Rightarrow> 'm \<Rightarrow> 'm artifact" where
  "simple_model_data env_model circ_model =
     [(''model_type'', PyStr ''optimized_dual_target''),
      (''environmental_model'', PyRegressor env_model),
      (''circularity_models'', PyDict [(''RandomForest'', PyRegressor circ_model)]),
      (''circularity_best_model'', PyStr ''RandomForest''),
      (''label_encoders'', PyDict
         [(''Metal'', PyEncoder (le_fit LabelEncoder metals)),
          (''Process_Type'', PyEncoder (le_fit LabelEncoder processes)),
          (''End_of_Life'', PyEncoder (le_fit LabelEncoder eol_options))]),
      (''metadata'', PyDict
         [(''model_version'', PyStr ''railway_fallback_v1.0''),
          (''feature_alignment'', PyStr ''corrected''),
          (''features_count'', PyInt 13),
          (''created_by'', PyStr ''railway_deployment_fallback''),
          (''description'',
             PyStr ''Simple fallback model for Railway deployment when LFS models unavailable'')])]"

text \<open>
  \<^verbatim>\<open>create_simple_fallback_model()\<close>: generate the data, fit both regressors (50 trees,
  \<^verbatim>\<open>random_state=42\<close>), assemble the dict. An exception of a fit propagates. The result
  comes with the state the process-wide generator is left in.
\<close>

definition create_simple_fallback_model ::
  "('s, 'm) library \<Rightarrow> 's \<Rightarrow> (py_error + 'm artifact) \<times> 's" where
  "create_simple_fallback_model L g =
     (case simple_training_data L g of (d, s) \<Rightarrow>
       (case rf_fit L 50 42 (X_train d) (y_env d) of
          Inl e \<Rightarrow> (Inl e, s)
        | Inr env_model \<Rightarrow>
            (case rf_fit L 50 42 (X_train d) (y_circ d) of
               Inl e \<Rightarrow> (Inl e, s)
             | Inr circ_model \<Rightarrow> (Inr (simple_model_data env_model circ_model), s))))"

subsection \<open>test\_models.py\<close>

text \<open>
  The sample data of \<^verbatim>\<open>create_fallback_model\<close>: \<^verbatim>\<open>np.random.seed(42)\<close>, then three
  uniform arrays, the two target arrays multiplied by a row of factors.
\<close>

definition fallback_training_data :: "('s, 'm) library \<Rightarrow> 's \<Rightarrow> dataset \<times> 's" where
  "fallback_training_data L g =
     (case np_rand L 100 13 (np_seed L 42) of (X_sample, s1) \<Rightarrow>
      case np_rand L 100 3 s1 of (r_env, s2) \<Rightarrow>
      case np_rand L 100 3 s2 of (r_circ, s3) \<Rightarrow>
        (\<lparr>X_train = X_sample,
          y_env = broadcast_mult r_env [100, 10, 50],
          y_circ = broadcast_mult r_circ [1, 100, 1]\<rparr>, s3))"

definition fallback_model_data :: "'m \<Rightarrow> 'm \<Rightarrow> 'm artifact" where
  "fallback_model_data environmental_model circularity_model =
     [(''model_type'', PyStr ''optimized_dual_target''),
      (''environmental_model'', PyRegressor environmental_model),
      (''circularity_models'', PyDict [(''RandomForest'', PyRegressor circularity_model)]),
      (''circularity_best_model'', PyStr ''RandomForest''),
      (''label_encoders'', PyDict
         [(''Metal'', PyEncoder (le_fit LabelEncoder metals)),
          (''Process_Type'', PyEncoder (le_fit LabelEncoder processes)),
          (''End_of_Life'', PyEncoder (le_fit LabelEncoder eol_options))]),
      (''metadata'', PyDict
         [(''model_version'', PyStr ''fallback_v1.0''),
          (''feature_alignment'', PyStr ''corrected''),
          (''features_count'', PyInt 13),
          (''created_by'', PyStr ''fallback_generator'')])]"

text \<open>\<^verbatim>\<open>create_fallback_model()\<close>: 10 trees per forest, \<^verbatim>\<open>random_state=42\<close>.\<close>

definition create_fallback_model ::
  "('s, 'm) library \<Rightarrow> 's \<Rightarrow> (py_error + 'm artifact) \<times> 's" where
  "create_fallback_model L g =
     (case fallback_training_data L g of (d, s) \<Rightarrow>
       (case rf_fit L 10 42 (X_train d) (y_env d) of
          Inl e \<Rightarrow> (Inl e, s)
        | Inr environmental_model \<Rightarrow>
            (case rf_fit L 10 42 (X_train d) (y_circ d) of
               Inl e \<Rightarrow> (Inl e, s)
             | Inr circularity_model \<Rightarrow>
                 (Inr (fallback_model_data environmental_model circularity_model), s))))"

section \<open>The artifact store\<close>

text \<open>
  The files the scripts read and write. A file system has directories, files (a file
  opened for writing and not yet completely written holds \<open>None\<close>), paths the
  operating system refuses to open or create, and may be out of space. \<open>pickle\<close> is
  the serialisation: \<open>dumps\<close> fails on an object that cannot be pickled; \<open>loads\<close>
  returns the object or raises, and since unpickling runs the code the pickle names, it
  can raise any error, \<^verbatim>\<open>SystemExit\<close> included.
\<close>

record 'b filesystem =
  dirs :: "string set"
  files :: "string \<rightharpoonup> 'b option"
  no_access :: "string set"
  no_space :: bool

record ('a, 'b) pickle =
  dumps :: "'a \<Rightarrow> 'b option"
  loads :: "'b \<Rightarrow> py_error + 'a"

text \<open>\<^verbatim>\<open>os.path.dirname\<close>: the path up to its last slash.\<close>

definition dirname :: "string \<Rightarrow> string" where
  "dirname p = rev (drop 1 (dropWhile (\<lambda>c. c \<noteq> CHR ''/'') (rev p)))"


text \<open>
  \<^verbatim>\<open>os.makedirs(d, exist_ok=True)\<close> for a directory \<open>d\<close> of the working directory:
  nothing to do when \<open>d\<close> is a directory already, an error when it is a file or may not
  be created.
\<close>

definition makedirs :: "'b filesystem \<Rightarrow> string \<Rightarrow> py_error + 'b filesystem" where
  "makedirs fs d =
     (if d \<in> dirs fs then Inr fs
      else if files fs d \<noteq> None then Inl (FileExistsError d)
      else if d \<in> no_access fs then Inl (PermissionError d)
      else Inr (fs\<lparr>dirs := insert d (dirs fs)\<rparr>))"

text \<open>
  \<^verbatim>\<open>open(p, 'wb')\<close> needs the directory of \<open>p\<close> to exist and creates or truncates
  the file. \<^verbatim>\<open>pickle.dump(obj, f)\<close> then writes the pickled object; when it raises, the
  file stays incomplete.
\<close>

definition open_wb :: "'b filesystem \<Rightarrow> string \<Rightarrow> py_error + 'b filesystem" where
  "open_wb fs p =
     (if p \<in> dirs fs then Inl (IsADirectoryError p)
      else if dirname p \<noteq> [] \<and> files fs (dirname p) \<noteq> None then Inl (NotADirectoryError p)
      else if dirname p \<noteq> [] \<and> dirname p \<notin> dirs fs then Inl (FileNotFoundError p)
      else if p \<in> no_access fs then Inl (PermissionError p)
      else Inr (fs\<lparr>files := (files fs)(p \<mapsto> None)\<rparr>))"

definition pickle_dump ::
  "('a, 'b) pickle \<Rightarrow> 'a \<Rightarrow> 'b filesystem \<Rightarrow> string \<Rightarrow> py_error + 'b filesystem" where
  "pickle_dump P obj fs p =
     (case dumps P obj of
        None \<Rightarrow> Inl PicklingError
      | Some b \<Rightarrow>
          if no_space fs then Inl (NoSpaceLeftError p)
          else Inr (fs\<lparr>files := (files fs)(p \<mapsto> Some b)\<rparr>))"


text \<open>What the store operations print: one constructor for each message.\<close>

datatype printed =
    Testing string
  | LoadedOk string
  | LoadFailed string py_error
  | Saved string
  | SaveFailed py_error

subsection \<open>test\_models.py: loading and saving\<close>




text \<open>
  \<^verbatim>\<open>save_fallback_model(model_data)\<close> of test\_models.py: open and dump inside one
  \<^verbatim>\<open>try\<close>, every exception caught. It returns the flag, the file system it leaves and
  what it printed.
\<close>

definition save_fallback_model_test_models ::
  "('a, 'b) pickle \<Rightarrow> 'b filesystem \<Rightarrow> 'a \<Rightarrow> bool \<times> 'b filesystem \<times> printed list" where
  "save_fallback_model_test_models P fs model_data =
     (case open_wb fs ''models/fallback_model.pkl'' of
        Inl e \<Rightarrow> (False, fs, [SaveFailed e])
      | Inr fs1 \<Rightarrow>
          (case pickle_dump P model_data fs1 ''models/fallback_model.pkl'' of
             Inl e \<Rightarrow> (False, fs1, [SaveFailed e])
           | Inr fs2 \<Rightarrow> (True, fs2, [Saved ''models/fallback_model.pkl''])))"

subsection \<open>create\_fallback\_model.py: saving\<close>

text \<open>
  \<^verbatim>\<open>save_fallback_model()\<close> of create\_fallback\_model.py: \<^verbatim>\<open>os.makedirs\<close> and the
  builder run before the \<^verbatim>\<open>try\<close>, so their exceptions leave the function; open and
  dump run inside it. The lines printed after a successful save are one \<open>Saved\<close>.
\<close>

definition save_fallback_model ::
  "('s, 'm) library \<Rightarrow> ('m artifact, 'b) pickle \<Rightarrow> 'b filesystem \<Rightarrow> 's \<Rightarrow>
     (py_error + bool) \<times> 'b filesystem \<times> printed list" where
  "save_fallback_model L P fs g =
     (case makedirs fs ''models'' of
        Inl e \<Rightarrow> (Inl e, fs, [])
      | Inr fs0 \<Rightarrow>
          (case fst (create_simple_fallback_model L g) of
             Inl e \<Rightarrow> (Inl e, fs0, [])
           | Inr model_data \<Rightarrow>
               (case open_wb fs0 ''models/railway_fallback_model.pkl'' of
                  Inl e \<Rightarrow> (Inr False, fs0, [SaveFailed e])
                | Inr fs1 \<Rightarrow>
                    (case pickle_dump P model_data fs1 ''models/railway_fallback_model.pkl'' of
                       Inl e \<Rightarrow> (Inr False, fs1, [SaveFailed e])
                     | Inr fs2 \<Rightarrow>
                         (Inr True, fs2, [Saved ''models/railway_fallback_model.pkl''])))))"

subsection \<open>Notions used to state the properties of the loader\<close>





section \<open>health\_check.py\<close>

text \<open>
  \<^verbatim>\<open>requests.get\<close> returns a response with a status code or raises an exception of the
  class \<^verbatim>\<open>RequestException\<close> (connection failure, timeout, invalid URL), which is the
  class the handler catches. The world gives the outcome of the request of each attempt
  at a URL, and the environment variables.
\<close>

datatype http_outcome = Response int | RequestException string

record world =
  environ :: "string \<rightharpoonup> string"
  http_get :: "string \<Rightarrow> nat \<Rightarrow> http_outcome"

text \<open>What the poller does, in the order it does it: requests (URL, timeout), sleeps, prints.\<close>

datatype effect =
    HttpGet string nat
  | Sleep nat
  | PrintPassed string
  | PrintAttemptFailed nat nat string
  | PrintGaveUp nat

definition max_attempts :: nat where
  "max_attempts = 30"

definition health_url :: "string \<Rightarrow> string" where
  "health_url port = ''http://localhost:'' @ port @ ''/_stcore/health''"

text \<open>
  \<^verbatim>\<open>for attempt in range(max_attempts)\<close> from \<open>attempt\<close> on: the result and the
  effects from there.
\<close>

function check_health_loop :: "world \<Rightarrow> string \<Rightarrow> nat \<Rightarrow> bool \<times> effect list" where
  "check_health_loop w port attempt =
     (if attempt < max_attempts then
        (case http_get w (health_url port) attempt of
           Response status_code \<Rightarrow>
             if status_code = 200 then
               (True, [HttpGet (health_url port) 5, PrintPassed port])
             else
               (case check_health_loop w port (Suc attempt) of
                  (r, es) \<Rightarrow> (r, HttpGet (health_url port) 5 # Sleep 2 # es))
         | RequestException e \<Rightarrow>
             (case check_health_loop w port (Suc attempt) of
                (r, es) \<Rightarrow>
                  (r, HttpGet (health_url port) 5 #
                      PrintAttemptFailed (attempt + 1) max_attempts e # Sleep 2 # es)))
      else (False, [PrintGaveUp max_attempts]))"
  by pat_completeness auto
termination
  by (relation "measure (\<lambda>(w, port, attempt). max_attempts - attempt)") auto

text \<open>\<^verbatim>\<open>os.environ.get('PORT', '8501')\<close>.\<close>

definition port_of :: "world \<Rightarrow> string" where
  "port_of w = (case environ w ''PORT'' of None \<Rightarrow> ''8501'' | Some p \<Rightarrow> p)"

definition check_health :: "world \<Rightarrow> bool \<times> effect list" where
  "check_health w = check_health_loop w (port_of w) 0"

text \<open>Counting the requests and the sleeps among the effects.\<close>

fun is_get :: "effect \<Rightarrow> bool" where
  "is_get (HttpGet url timeout) = True"
| "is_get _ = False"

fun is_sleep :: "effect \<Rightarrow> bool" where
  "is_sleep (Sleep seconds) = True"
| "is_sleep _ = False"

definition requests_issued :: "effect list \<Rightarrow> nat" where
  "requests_issued es = length (filter is_get es)"

definition sleeps_taken :: "effect list \<Rightarrow> nat" where
  "sleeps_taken es = length (filter is_sleep es)"

section \<open>Concrete inputs\<close>

text \<open>
  A library to run the builders on: the generator state is a counter, a uniform draw is a
  sixteenth, an integer draw lies in the requested range, a normal draw is within two
  standard deviations of its mean, and a fit succeeds and remembers its two settings.
\<close>

definition counter_library :: "(nat, nat \<times> nat) library" where
  "counter_library =
     \<lparr>np_seed = (\<lambda>n. n),
      np_random_sample = (\<lambda>s. (real (s mod 16) / 16, Suc s)),
      np_randint = (\<lambda>lo hi s. (lo + int s mod (hi - lo), Suc s)),
      np_normal = (\<lambda>mu sigma s. (mu + sigma * (real (s mod 5) - 2), Suc s)),
      rf_fit = (\<lambda>n_estimators random_state X y. Inr (n_estimators, random_state))\<rparr>"

text \<open>
  File systems and pickles to run the store on: nothing on disk; a \<^verbatim>\<open>models\<close>
  directory whose first candidate is missing and whose second is an incomplete file; a
  \<^verbatim>\<open>models\<close> directory whose first candidate is a pickle that calls \<^verbatim>\<open>sys.exit(1)\<close>
  when it is loaded and whose second candidate is sound.
\<close>

definition empty_disk :: "'b filesystem" where
  "empty_disk = \<lparr>dirs = {}, files = Map.empty, no_access = {}, no_space = False\<rparr>"

definition identity_pickle :: "('a, 'a) pickle" where
  "identity_pickle = \<lparr>dumps = Some, loads = Inr\<rparr>"




text \<open>
  Two endpoints: one that refuses, answers 503 and then answers 200; one that never
  answers 200.
\<close>

definition ready_on_third :: world where
  "ready_on_third =
     \<lparr>environ = Map.empty,
      http_get = (\<lambda>url n. if n = 0 then RequestException ''connection refused''
                           else if n = 1 then Response 503 else Response 200)\<rparr>"

definition never_ready :: world where
  "never_ready =
     \<lparr>environ = [''PORT'' \<mapsto> ''9000''],
      http_get = (\<lambda>url n. if even n then RequestException ''timed out'' else Response 404)\<rparr>"

section \<open>The artifact\<close>

lemma simple_builder_result:
  "fst (create_simple_fallback_model L g) = Inr a \<Longrightarrow> \<exists>m1 m2. a = simple_model_data m1 m2"
  by (auto simp: create_simple_fallback_model_def split: prod.splits sum.splits)

lemma fallback_builder_result:
  "fst (create_fallback_model L g) = Inr a \<Longrightarrow> \<exists>m1 m2. a = fallback_model_data m1 m2"
  by (auto simp: create_fallback_model_def split: prod.splits sum.splits)

lemma counter_simple_builder:
  "fst (create_simple_fallback_model counter_library g) = Inr (simple_model_data (50, 42) (50, 42))"
  by (simp add: create_simple_fallback_model_def counter_library_def split: prod.splits)

lemma counter_fallback_builder:
  "fst (create_fallback_model counter_library g) = Inr (fallback_model_data (10, 42) (10, 42))"
  by (simp add: create_fallback_model_def counter_library_def split: prod.splits)

text \<open>
  Claim C1. Every artifact returned by \<open>create_simple_fallback_model\<close> or by
  \<open>create_fallback_model\<close> has exactly the top-level keys model\_type,
  environmental\_model, circularity\_models, circularity\_best\_model, label\_encoders and
  metadata; its label\_encoders dict has exactly the entries Metal, Process\_Type and
  End\_of\_Life, each an encoder; its metadata holds a version tag, the feature count 13 and
  the provenance string of the builder.
\<close>

theorem artifact_keys:
  "(fst (create_simple_fallback_model L g) = Inr a \<longrightarrow>
      keys a = [''model_type'', ''environmental_model'', ''circularity_models'',
                ''circularity_best_model'', ''label_encoders'', ''metadata''] \<and>
      (\<exists>e1 e2 e3. dict_get a ''label_encoders'' =
         Some (PyDict [(''Metal'', PyEncoder e1), (''Process_Type'', PyEncoder e2),
                       (''End_of_Life'', PyEncoder e3)])) \<and>
      (\<exists>md. dict_get a ''metadata'' = Some (PyDict md) \<and>
         dict_get md ''model_version'' = Some (PyStr ''railway_fallback_v1.0'') \<and>
         dict_get md ''features_count'' = Some (PyInt 13) \<and>
         dict_get md ''created_by'' = Some (PyStr ''railway_deployment_fallback''))) \<and>
   (fst (create_fallback_model L g) = Inr b \<longrightarrow>
      keys b = [''model_type'', ''environmental_model'', ''circularity_models'',
                ''circularity_best_model'', ''label_encoders'', ''metadata''] \<and>
      (\<exists>e1 e2 e3. dict_get b ''label_encoders'' =
         Some (PyDict [(''Metal'', PyEncoder e1), (''Process_Type'', PyEncoder e2),
                       (''End_of_Life'', PyEncoder e3)])) \<and>
      (\<exists>md. dict_get b ''metadata'' = Some (PyDict md) \<and>
         dict_get md ''model_version'' = Some (PyStr ''fallback_v1.0'') \<and>
         dict_get md ''features_count'' = Some (PyInt 13) \<and>
         dict_get md ''created_by'' = Some (PyStr ''fallback_generator'')))"
proof (intro conjI impI)
  assume "fst (create_simple_fallback_model L g) = Inr a"
  then obtain m1 m2 where a: "a = simple_model_data m1 m2"
    using simple_builder_result [of L g a] by auto
  show "keys a = [''model_type'', ''environmental_model'', ''circularity_models'',
                ''circularity_best_model'', ''label_encoders'', ''metadata'']"
    by (simp add: a simple_model_data_def keys_def)
  show "\<exists>e1 e2 e3. dict_get a ''label_encoders'' =
         Some (PyDict [(''Metal'', PyEncoder e1), (''Process_Type'', PyEncoder e2),
                       (''End_of_Life'', PyEncoder e3)])"
    by (simp add: a simple_model_data_def dict_get_def)
  show "\<exists>md. dict_get a ''metadata'' = Some (PyDict md) \<and>
         dict_get md ''model_version'' = Some (PyStr ''railway_fallback_v1.0'') \<and>
         dict_get md ''features_count'' = Some (PyInt 13) \<and>
         dict_get md ''created_by'' = Some (PyStr ''railway_deployment_fallback'')"
    by (simp add: a simple_model_data_def dict_get_def)
next
  assume "fst (create_fallback_model L g) = Inr b"
  then obtain m1 m2 where b: "b = fallback_model_data m1 m2"
    using fallback_builder_result [of L g b] by auto
  show "keys b = [''model_type'', ''environmental_model'', ''circularity_models'',
                ''circularity_best_model'', ''label_encoders'', ''metadata'']"
    by (simp add: b fallback_model_data_def keys_def)
  show "\<exists>e1 e2 e3. dict_get b ''label_encoders'' =
         Some (PyDict [(''Metal'', PyEncoder e1), (''Process_Type'', PyEncoder e2),
                       (''End_of_Life'', PyEncoder e3)])"
    by (simp add: b fallback_model_data_def dict_get_def)
  show "\<exists>md. dict_get b ''metadata'' = Some (PyDict md) \<and>
         dict_get md ''model_version'' = Some (PyStr ''fallback_v1.0'') \<and>
         dict_get md ''features_count'' = Some (PyInt 13) \<and>
         dict_get md ''created_by'' = Some (PyStr ''fallback_generator'')"
    by (simp add: b fallback_model_data_def dict_get_def)
qed


theorem artifact_keys_witness:
  "fst (create_simple_fallback_model counter_library 0) = Inr (simple_model_data (50, 42) (50, 42)) \<and>
   keys (simple_model_data (50 :: nat, 42 :: nat) (50, 42)) =
     [''model_type'', ''environmental_model'', ''circularity_models'',
      ''circularity_best_model'', ''label_encoders'', ''metadata''] \<and>
   fst (create_fallback_model counter_library 0) = Inr (fallback_model_data (10, 42) (10, 42)) \<and>
   keys (fallback_model_data (10 :: nat, 42 :: nat) (10, 42)) =
     [''model_type'', ''environmental_model'', ''circularity_models'',
      ''circularity_best_model'', ''label_encoders'', ''metadata'']"
  using artifact_keys [of counter_library 0 "simple_model_data (50, 42) (50, 42)"
      "fallback_model_data (10, 42) (10, 42)"]
    counter_simple_builder [of 0] counter_fallback_builder [of 0]
  by simp

text \<open>
  Claim C8. In every artifact returned by either builder, the string stored under
  circularity\_best\_model is a key of the dict stored under circularity\_models.
\<close>

theorem best_model_is_key:
  "(fst (create_simple_fallback_model L g) = Inr a \<longrightarrow>
      (\<exists>best cm. dict_get a ''circularity_best_model'' = Some (PyStr best) \<and>
         dict_get a ''circularity_models'' = Some (PyDict cm) \<and> best \<in> set (keys cm))) \<and>
   (fst (create_fallback_model L g) = Inr b \<longrightarrow>
      (\<exists>best cm. dict_get b ''circularity_best_model'' = Some (PyStr best) \<and>
         dict_get b ''circularity_models'' = Some (PyDict cm) \<and> best \<in> set (keys cm)))"
proof (intro conjI impI)
  assume "fst (create_simple_fallback_model L g) = Inr a"
  then obtain m1 m2 where "a = simple_model_data m1 m2"
    using simple_builder_result [of L g a] by auto
  then show "\<exists>best cm. dict_get a ''circularity_best_model'' = Some (PyStr best) \<and>
         dict_get a ''circularity_models'' = Some (PyDict cm) \<and> best \<in> set (keys cm)"
    by (simp add: simple_model_data_def dict_get_def keys_def)
next
  assume "fst (create_fallback_model L g) = Inr b"
  then obtain m1 m2 where "b = fallback_model_data m1 m2"
    using fallback_builder_result [of L g b] by auto
  then show "\<exists>best cm. dict_get b ''circularity_best_model'' = Some (PyStr best) \<and>
         dict_get b ''circularity_models'' = Some (PyDict cm) \<and> best \<in> set (keys cm)"
    by (simp add: fallback_model_data_def dict_get_def keys_def)
qed

theorem best_model_is_key_witness:
  "fst (create_simple_fallback_model counter_library 7) = Inr (simple_model_data (50, 42) (50, 42)) \<and>
   (\<exists>best cm.
      dict_get (simple_model_data (50, 42) (50, 42) :: (nat \<times> nat) artifact) ''circularity_best_model''
        = Some (PyStr best) \<and>
      dict_get (simple_model_data (50, 42) (50, 42) :: (nat \<times> nat) artifact) ''circularity_models''
        = Some (PyDict cm) \<and>
      best \<in> set (keys cm)) \<and>
   fst (create_fallback_model counter_library 7) = Inr (fallback_model_data (10, 42) (10, 42)) \<and>
   (\<exists>best cm.
      dict_get (fallback_model_data (10, 42) (10, 42) :: (nat \<times> nat) artifact) ''circularity_best_model''
        = Some (PyStr best) \<and>
      dict_get (fallback_model_data (10, 42) (10, 42) :: (nat \<times> nat) artifact) ''circularity_models''
        = Some (PyDict cm) \<and>
      best \<in> set (keys cm))"
  using best_model_is_key [of counter_library 7 "simple_model_data (50, 42) (50, 42)"
      "fallback_model_data (10, 42) (10, 42)"]
    counter_simple_builder [of 7] counter_fallback_builder [of 7]
  by simp







section \<open>The synthetic training data\<close>

lemma length_draws: "length (fst (draws f n s)) = n"
  by (induction n arbitrary: s) (simp_all add: case_prod_beta)

lemma draws_all:
  "(\<And>s. P (fst (f s))) \<Longrightarrow> x \<in> set (fst (draws f n s)) \<Longrightarrow> P x"
proof (induction n arbitrary: s)
  case 0
  then show ?case by simp
next
  case (Suc n)
  obtain y s1 where f: "f s = (y, s1)" by (cases "f s")
  obtain ys s2 where d: "draws f n s1 = (ys, s2)" by (cases "draws f n s1")
  from Suc.prems(2) f d have "x = y \<or> x \<in> set (fst (draws f n s1))" by simp
  then show ?case
  proof
    assume "x = y"
    with Suc.prems(1) [of s] f show ?thesis by simp
  next
    assume "x \<in> set (fst (draws f n s1))"
    with Suc.IH Suc.prems(1) show ?thesis by blast
  qed
qed

lemma np_rand_shape:
  "length (fst (np_rand L n m s)) = n"
  "row \<in> set (fst (np_rand L n m s)) \<Longrightarrow> length row = m"
proof -
  show "length (fst (np_rand L n m s)) = n"
    by (simp add: np_rand_def length_draws)
  assume "row \<in> set (fst (np_rand L n m s))"
  then show "length row = m"
    unfolding np_rand_def
    by (rule draws_all [rotated]) (rule length_draws)
qed

lemma np_rand_range:
  assumes u: "\<And>s. 0 \<le> fst (np_random_sample L s) \<and> fst (np_random_sample L s) < 1"
    and row: "row \<in> set (fst (np_rand L n m s))" and x: "x \<in> set row"
  shows "0 \<le> x \<and> x < 1"
proof -
  have "\<forall>x\<in>set row. 0 \<le> x \<and> x < 1"
    using row unfolding np_rand_def
  proof (rule draws_all [rotated])
    fix s'
    show "\<forall>x\<in>set (fst (draws (np_random_sample L) m s')). 0 \<le> x \<and> x < 1"
      using draws_all [of "\<lambda>x. 0 \<le> x \<and> x < 1" "np_random_sample L" _ m s'] u by blast
  qed
  with x show ?thesis by blast
qed

lemma np_randint_vec_range:
  assumes r: "\<And>s. lo \<le> fst (np_randint L lo hi s) \<and> fst (np_randint L lo hi s) < hi"
    and v: "v \<in> set (fst (np_randint_vec L lo hi n s))"
  shows "lo \<le> v \<and> v < hi"
  using v unfolding np_randint_vec_def
  by (rule draws_all [rotated]) (rule r)

lemma length_np_randint_vec: "length (fst (np_randint_vec L lo hi n s)) = n"
  by (simp add: np_randint_vec_def length_draws)

lemma length_set_column: "length (set_column j col X) = min (length X) (length col)"
  by (simp add: set_column_def)

lemma length_scale_column: "length (scale_column j c X) = length X"
  by (simp add: scale_column_def)

lemma in_set_column:
  "r \<in> set (set_column j col X) \<Longrightarrow> \<exists>row\<in>set X. \<exists>v\<in>set col. r = row[j := real_of_int v]"
  by (auto simp: set_column_def dest: set_zip_leftD set_zip_rightD)

lemma in_scale_column:
  "r \<in> set (scale_column j c X) \<Longrightarrow> \<exists>row\<in>set X. r = row[j := row ! j * c]"
  by (auto simp: scale_column_def)






lemma feature_row:
  assumes "r \<in> set (scale_column 6 5 (scale_column 5 30 (scale_column 4 20 (scale_column 3 2000
      (set_column 2 c2 (set_column 1 c1 (set_column 0 c0 X0)))))))"
  shows "\<exists>row\<in>set X0. \<exists>v0\<in>set c0. \<exists>v1\<in>set c1. \<exists>v2\<in>set c2.
     r = row[0 := real_of_int v0, 1 := real_of_int v1, 2 := real_of_int v2,
             3 := row ! 3 * 2000, 4 := row ! 4 * 20, 5 := row ! 5 * 30, 6 := row ! 6 * 5]"
proof -
  from in_scale_column [OF assms] obtain r6 where
    r6: "r6 \<in> set (scale_column 5 30 (scale_column 4 20 (scale_column 3 2000
      (set_column 2 c2 (set_column 1 c1 (set_column 0 c0 X0))))))" and r: "r = r6[6 := r6 ! 6 * 5]"
    by blast
  from in_scale_column [OF r6] obtain r5 where
    r5: "r5 \<in> set (scale_column 4 20 (scale_column 3 2000
      (set_column 2 c2 (set_column 1 c1 (set_column 0 c0 X0)))))" and r6': "r6 = r5[5 := r5 ! 5 * 30]"
    by blast
  from in_scale_column [OF r5] obtain r4 where
    r4: "r4 \<in> set (scale_column 3 2000 (set_column 2 c2 (set_column 1 c1 (set_column 0 c0 X0))))"
    and r5': "r5 = r4[4 := r4 ! 4 * 20]"
    by blast
  from in_scale_column [OF r4] obtain r3 where
    r3: "r3 \<in> set (set_column 2 c2 (set_column 1 c1 (set_column 0 c0 X0)))"
    and r4': "r4 = r3[3 := r3 ! 3 * 2000]"
    by blast
  from in_set_column [OF r3] obtain r2 v2 where
    r2: "r2 \<in> set (set_column 1 c1 (set_column 0 c0 X0))" and v2: "v2 \<in> set c2"
    and r3': "r3 = r2[2 := real_of_int v2]"
    by blast
  from in_set_column [OF r2] obtain r1 v1 where
    r1: "r1 \<in> set (set_column 0 c0 X0)" and v1: "v1 \<in> set c1"
    and r2': "r2 = r1[1 := real_of_int v1]"
    by blast
  from in_set_column [OF r1] obtain row v0 where
    row: "row \<in> set X0" and v0: "v0 \<in> set c0" and r1': "r1 = row[0 := real_of_int v0]"
    by blast
  have "r = row[0 := real_of_int v0, 1 := real_of_int v1, 2 := real_of_int v2,
             3 := row ! 3 * 2000, 4 := row ! 4 * 20, 5 := row ! 5 * 30, 6 := row ! 6 * 5]"
    by (simp add: r r6' r5' r4' r3' r2' r1')
  with row v0 v1 v2 show ?thesis by blast
qed

lemma synthetic_X:
  "X_train (fst (synthetic_data L n s0)) =
     scale_column 6 5 (scale_column 5 30 (scale_column 4 20 (scale_column 3 2000
       (set_column 2
          (fst (np_randint_vec L 0 (int (length eol_options)) n
             (snd (np_randint_vec L 0 (int (length processes)) n
                (snd (np_randint_vec L 0 (int (length metals)) n (snd (np_rand L n 13 s0))))))))
       (set_column 1
          (fst (np_randint_vec L 0 (int (length processes)) n
             (snd (np_randint_vec L 0 (int (length metals)) n (snd (np_rand L n 13 s0))))))
       (set_column 0
          (fst (np_randint_vec L 0 (int (length metals)) n (snd (np_rand L n 13 s0))))
          (fst (np_rand L n 13 s0))))))))"
  by (simp add: synthetic_data_def case_prod_beta Let_def)

lemma length_synthetic_X: "length (X_train (fst (synthetic_data L n s0))) = n"
  by (simp add: synthetic_X length_scale_column length_set_column length_np_randint_vec
      np_rand_shape(1))



lemma synthetic_row:
  assumes uniform: "\<And>s. 0 \<le> fst (np_random_sample L s) \<and> fst (np_random_sample L s) < 1"
    and integers: "\<And>lo hi s. lo < hi \<Longrightarrow>
        lo \<le> fst (np_randint L lo hi s) \<and> fst (np_randint L lo hi s) < hi"
    and r: "r \<in> set (X_train (fst (synthetic_data L n s0)))"
  shows "length r = 13 \<and>
     (\<exists>k. 0 \<le> k \<and> k < int (length metals) \<and> r ! 0 = real_of_int k) \<and>
     (\<exists>k. 0 \<le> k \<and> k < int (length processes) \<and> r ! 1 = real_of_int k) \<and>
     (\<exists>k. 0 \<le> k \<and> k < int (length eol_options) \<and> r ! 2 = real_of_int k) \<and>
     0 \<le> r ! 3 \<and> r ! 3 \<le> 2000 \<and> 0 \<le> r ! 4 \<and> r ! 4 \<le> 20 \<and>
     0 \<le> r ! 5 \<and> r ! 5 \<le> 30 \<and> 0 \<le> r ! 6 \<and> r ! 6 \<le> 5 \<and>
     (\<forall>j. 7 \<le> j \<and> j < 13 \<longrightarrow> 0 \<le> r ! j \<and> r ! j < 1)"
proof -
  from r [unfolded synthetic_X] feature_row obtain row v0 v1 v2 where
    row: "row \<in> set (fst (np_rand L n 13 s0))"
    and v0: "v0 \<in> set (fst (np_randint_vec L 0 (int (length metals)) n (snd (np_rand L n 13 s0))))"
    and v1: "v1 \<in> set (fst (np_randint_vec L 0 (int (length processes)) n
             (snd (np_randint_vec L 0 (int (length metals)) n (snd (np_rand L n 13 s0))))))"
    and v2: "v2 \<in> set (fst (np_randint_vec L 0 (int (length eol_options)) n
             (snd (np_randint_vec L 0 (int (length processes)) n
                (snd (np_randint_vec L 0 (int (length metals)) n (snd (np_rand L n 13 s0))))))))"
    and req: "r = row[0 := real_of_int v0, 1 := real_of_int v1, 2 := real_of_int v2,
             3 := row ! 3 * 2000, 4 := row ! 4 * 20, 5 := row ! 5 * 30, 6 := row ! 6 * 5]"
    by blast
  have len: "length row = 13" using row by (rule np_rand_shape(2))
  have unit: "0 \<le> row ! j \<and> row ! j < 1" if "j < 13" for j
    using np_rand_range [OF uniform row, of "row ! j"] that len by simp
  have k0: "0 \<le> v0 \<and> v0 < int (length metals)"
    using v0 by (rule np_randint_vec_range [rotated]) (rule integers, simp add: metals_def)
  have k1: "0 \<le> v1 \<and> v1 < int (length processes)"
    using v1 by (rule np_randint_vec_range [rotated]) (rule integers, simp add: processes_def)
  have k2: "0 \<le> v2 \<and> v2 < int (length eol_options)"
    using v2 by (rule np_randint_vec_range [rotated]) (rule integers, simp add: eol_options_def)
  have "length r = 13" by (simp add: req len)
  moreover have "r ! 0 = real_of_int v0" "r ! 1 = real_of_int v1" "r ! 2 = real_of_int v2"
    by (simp_all add: req len)
  moreover have "r ! 3 = row ! 3 * 2000" "r ! 4 = row ! 4 * 20" "r ! 5 = row ! 5 * 30"
    "r ! 6 = row ! 6 * 5"
    by (simp_all add: req len)
  moreover have "r ! j = row ! j" if "7 \<le> j" for j
    using that by (simp add: req)
  moreover have "0 \<le> row ! 3 * 2000 \<and> row ! 3 * 2000 \<le> 2000"
    using unit [of 3] by simp
  moreover have "0 \<le> row ! 4 * 20 \<and> row ! 4 * 20 \<le> 20"
    using unit [of 4] by simp
  moreover have "0 \<le> row ! 5 * 30 \<and> row ! 5 * 30 \<le> 30"
    using unit [of 5] by simp
  moreover have "0 \<le> row ! 6 * 5 \<and> row ! 6 * 5 \<le> 5"
    using unit [of 6] by simp
  ultimately show ?thesis
    using k0 k1 k2 unit by auto
qed




lemma fallback_X:
  "X_train (fst (fallback_training_data L g)) = fst (np_rand L 100 13 (np_seed L 42))"
  by (simp add: fallback_training_data_def case_prod_beta)





text \<open>Running the generators on the counter library: heads of the matrices, generator states.\<close>

lemma hd_draws_pos: "0 < n \<Longrightarrow> hd (fst (draws f n s)) = fst (f s)"
  by (cases n) (simp_all add: case_prod_beta)

lemma draws_counter_state:
  fixes f :: "nat \<Rightarrow> 'a \<times> nat"
  assumes "\<And>s. snd (f s) = s + k"
  shows "snd (draws f n s) = s + n * k"
  by (induction n arbitrary: s) (simp_all add: case_prod_beta assms)

lemma counter_seed: "np_seed counter_library n = n"
  by (simp add: counter_library_def)

lemma counter_uniform:
  "0 \<le> fst (np_random_sample counter_library s) \<and> fst (np_random_sample counter_library s) < 1"
  by (simp add: counter_library_def)

lemma counter_integers:
  "lo < hi \<Longrightarrow> lo \<le> fst (np_randint counter_library lo hi s) \<and>
     fst (np_randint counter_library lo hi s) < hi"
proof -
  assume "lo < hi"
  then have pos: "0 < hi - lo" by simp
  have b1: "0 \<le> int s mod (hi - lo)" using pos by (rule pos_mod_sign)
  have b2: "int s mod (hi - lo) < hi - lo" using pos by (rule pos_mod_bound)
  have eq: "fst (np_randint counter_library lo hi s) = lo + int s mod (hi - lo)"
    by (simp add: counter_library_def)
  show ?thesis unfolding eq using b1 b2 by linarith
qed

lemma counter_sample_nth:
  "i < n \<Longrightarrow> fst (draws (np_random_sample counter_library) n s) ! i = real ((s + i) mod 16) / 16"
proof (induction n arbitrary: s i)
  case 0
  then show ?case by simp
next
  case (Suc n)
  show ?case
  proof (cases i)
    case 0
    then show ?thesis by (simp add: case_prod_beta counter_library_def)
  next
    case (Suc i')
    with Suc.prems have "i' < n" by simp
    from Suc.IH [OF this, of "Suc s"] Suc show ?thesis
      by (simp add: case_prod_beta counter_library_def)
  qed
qed

lemma counter_rand_state: "snd (np_rand counter_library n m s) = s + n * m"
proof -
  have inner: "snd (draws (np_random_sample counter_library) m s') = s' + m" for s'
    using draws_counter_state [of "np_random_sample counter_library" 1 m s']
    by (simp add: counter_library_def)
  show ?thesis
    unfolding np_rand_def
    using draws_counter_state [of "draws (np_random_sample counter_library) m" m n s] inner
    by (simp add: mult.commute)
qed

lemma hd_np_rand:
  "0 < n \<Longrightarrow> hd (fst (np_rand L n m s)) = fst (draws (np_random_sample L) m s)"
  by (simp add: np_rand_def hd_draws_pos)

lemma hd_scale_column: "X \<noteq> [] \<Longrightarrow> hd (scale_column j c X) = (hd X)[j := hd X ! j * c]"
  by (simp add: scale_column_def hd_map)

lemma hd_set_column:
  "X \<noteq> [] \<Longrightarrow> col \<noteq> [] \<Longrightarrow> hd (set_column j col X) = (hd X)[j := real_of_int (hd col)]"
  by (cases X; cases col) (simp_all add: set_column_def)


lemma nonempty_by_length: "length xs = n \<Longrightarrow> 0 < n \<Longrightarrow> xs \<noteq> []"
  by auto

lemma nth_hd_scale_column:
  "X \<noteq> [] \<Longrightarrow> i \<noteq> j \<Longrightarrow> hd (scale_column i c X) ! j = hd X ! j"
  by (simp add: hd_scale_column)

lemma nth_hd_set_column:
  "X \<noteq> [] \<Longrightarrow> col \<noteq> [] \<Longrightarrow> i \<noteq> j \<Longrightarrow> hd (set_column i col X) ! j = hd X ! j"
  by (simp add: hd_set_column)

lemma synthetic_hd_feature:
  assumes n: "0 < n" and j: "7 \<le> j"
  shows "hd (X_train (fst (synthetic_data L n s0))) ! j = fst (draws (np_random_sample L) 13 s0) ! j"
proof -
  let ?X0 = "fst (np_rand L n 13 s0)"
  let ?c0 = "fst (np_randint_vec L 0 (int (length metals)) n (snd (np_rand L n 13 s0)))"
  let ?c1 = "fst (np_randint_vec L 0 (int (length processes)) n
             (snd (np_randint_vec L 0 (int (length metals)) n (snd (np_rand L n 13 s0)))))"
  let ?c2 = "fst (np_randint_vec L 0 (int (length eol_options)) n
             (snd (np_randint_vec L 0 (int (length processes)) n
                (snd (np_randint_vec L 0 (int (length metals)) n (snd (np_rand L n 13 s0)))))))"
  let ?X1 = "set_column 0 ?c0 ?X0"
  let ?X2 = "set_column 1 ?c1 ?X1"
  let ?X3 = "set_column 2 ?c2 ?X2"
  let ?X4 = "scale_column 3 2000 ?X3"
  let ?X5 = "scale_column 4 20 ?X4"
  let ?X6 = "scale_column 5 30 ?X5"
  have x0: "?X0 \<noteq> []" using n by (intro nonempty_by_length [of _ n]) (simp_all add: np_rand_shape(1))
  have c0: "?c0 \<noteq> []" using n by (intro nonempty_by_length [of _ n]) (simp_all add: length_np_randint_vec)
  have c1: "?c1 \<noteq> []" using n by (intro nonempty_by_length [of _ n]) (simp_all add: length_np_randint_vec)
  have c2: "?c2 \<noteq> []" using n by (intro nonempty_by_length [of _ n]) (simp_all add: length_np_randint_vec)
  have x1: "?X1 \<noteq> []"
    using n by (intro nonempty_by_length [of _ n])
      (simp_all add: length_set_column np_rand_shape(1) length_np_randint_vec)
  have x2: "?X2 \<noteq> []"
    using n by (intro nonempty_by_length [of _ n])
      (simp_all add: length_set_column np_rand_shape(1) length_np_randint_vec)
  have x3: "?X3 \<noteq> []"
    using n by (intro nonempty_by_length [of _ n])
      (simp_all add: length_set_column np_rand_shape(1) length_np_randint_vec)
  have x4: "?X4 \<noteq> []" using x3 by (simp add: scale_column_def)
  have x5: "?X5 \<noteq> []" using x4 by (simp add: scale_column_def)
  have x6: "?X6 \<noteq> []" using x5 by (simp add: scale_column_def)
  have "hd (X_train (fst (synthetic_data L n s0))) ! j = hd (scale_column 6 5 ?X6) ! j"
    by (simp only: synthetic_X)
  also have "\<dots> = hd ?X6 ! j" using j by (intro nth_hd_scale_column [OF x6]) simp
  also have "\<dots> = hd ?X5 ! j" using j by (intro nth_hd_scale_column [OF x5]) simp
  also have "\<dots> = hd ?X4 ! j" using j by (intro nth_hd_scale_column [OF x4]) simp
  also have "\<dots> = hd ?X3 ! j" using j by (intro nth_hd_scale_column [OF x3]) simp
  also have "\<dots> = hd ?X2 ! j" using j by (intro nth_hd_set_column [OF x2 c2]) simp
  also have "\<dots> = hd ?X1 ! j" using j by (intro nth_hd_set_column [OF x1 c1]) simp
  also have "\<dots> = hd ?X0 ! j" using j by (intro nth_hd_set_column [OF x0 c0]) simp
  also have "\<dots> = fst (draws (np_random_sample L) 13 s0) ! j"
    using n by (simp add: hd_np_rand)
  finally show ?thesis .
qed








lemma nth_set_column:
  "i < length X \<Longrightarrow> i < length col \<Longrightarrow>
   set_column j col X ! i = (X ! i)[j := real_of_int (col ! i)]"
  by (simp add: set_column_def)

lemma nth_scale_column:
  "i < length X \<Longrightarrow> scale_column j c X ! i = (X ! i)[j := X ! i ! j * c]"
  by (simp add: scale_column_def)

lemma synthetic_X_nth:
  assumes i: "i < n"
  shows "X_train (fst (synthetic_data L n s0)) ! i =
     (fst (np_rand L n 13 s0) ! i)
       [0 := real_of_int (fst (np_randint_vec L 0 (int (length metals)) n
                (snd (np_rand L n 13 s0))) ! i),
        1 := real_of_int (fst (np_randint_vec L 0 (int (length processes)) n
                (snd (np_randint_vec L 0 (int (length metals)) n (snd (np_rand L n 13 s0))))) ! i),
        2 := real_of_int (fst (np_randint_vec L 0 (int (length eol_options)) n
                (snd (np_randint_vec L 0 (int (length processes)) n
                   (snd (np_randint_vec L 0 (int (length metals)) n
                      (snd (np_rand L n 13 s0))))))) ! i),
        3 := fst (np_rand L n 13 s0) ! i ! 3 * 2000,
        4 := fst (np_rand L n 13 s0) ! i ! 4 * 20,
        5 := fst (np_rand L n 13 s0) ! i ! 5 * 30,
        6 := fst (np_rand L n 13 s0) ! i ! 6 * 5]"
  using i
  by (simp add: synthetic_X nth_scale_column nth_set_column length_scale_column
      length_set_column length_np_randint_vec np_rand_shape(1))


lemma nth0_draws: "0 < n \<Longrightarrow> fst (draws f n s) ! 0 = fst (f s)"
  by (cases n) (simp_all add: case_prod_beta)

lemma counter_randint_state: "snd (np_randint_vec counter_library lo hi n s) = s + n"
  unfolding np_randint_vec_def
  using draws_counter_state [of "np_randint counter_library lo hi" 1 n s]
  by (simp add: counter_library_def)

lemma counter_randint_nth0:
  "0 < n \<Longrightarrow> fst (np_randint_vec counter_library lo hi n s) ! 0 = lo + int s mod (hi - lo)"
  by (simp add: np_randint_vec_def nth0_draws) (simp add: counter_library_def)

text \<open>
  Claim C9, as amended. The feature matrix of \<open>create_simple_fallback_model\<close>, for its
  sample count \<open>n\<close> (which the code fixes at 1000: \<open>simple_training_data\<close> is
  \<open>synthetic_data\<close> at 1000 after seeding with 42), is an \<open>n \<times> 13\<close> array of uniform
  draws \<^verbatim>\<open>np.random.rand(n, 13)\<close> in which column 0, 1 and 2 of row \<open>i\<close> are overwritten
  by the \<open>i\<close>-th of \<open>n\<close> integer draws \<^verbatim>\<open>np.random.randint(0, count, n)\<close>, with the count
  of metals (8), processes (3) and end-of-life options (3), taken in that order after the
  uniform draws; columns 3, 4, 5 and 6 are the uniform draw at that place times 2000, 20,
  30 and 5, so they lie in [0,2000], [0,20], [0,30] and [0,5]; columns 7 to 12 are the
  uniform draws unchanged, in [0,1). The feature matrix of \<open>create_fallback_model\<close> is
  \<^verbatim>\<open>np.random.rand(100, 13)\<close> after seeding with 42 and nothing else: 100 rows of 13
  uniform draws in [0,1), no column of codes and no rescaled column.
\<close>

theorem feature_matrix:
  assumes uniform: "\<forall>s. 0 \<le> fst (np_random_sample L s) \<and> fst (np_random_sample L s) < 1"
    and integers: "\<forall>lo hi s. lo < hi \<longrightarrow>
        lo \<le> fst (np_randint L lo hi s) \<and> fst (np_randint L lo hi s) < hi"
  shows "(let X0 = fst (np_rand L n 13 s0);
              s1 = snd (np_rand L n 13 s0);
              c0 = fst (np_randint_vec L 0 (int (length metals)) n s1);
              s2 = snd (np_randint_vec L 0 (int (length metals)) n s1);
              c1 = fst (np_randint_vec L 0 (int (length processes)) n s2);
              s3 = snd (np_randint_vec L 0 (int (length processes)) n s2);
              c2 = fst (np_randint_vec L 0 (int (length eol_options)) n s3);
              X = X_train (fst (synthetic_data L n s0))
          in length X = n \<and>
             (\<forall>i<n. length (X ! i) = 13 \<and>
                X ! i ! 0 = real_of_int (c0 ! i) \<and> 0 \<le> c0 ! i \<and> c0 ! i < int (length metals) \<and>
                X ! i ! 1 = real_of_int (c1 ! i) \<and> 0 \<le> c1 ! i \<and> c1 ! i < int (length processes) \<and>
                X ! i ! 2 = real_of_int (c2 ! i) \<and> 0 \<le> c2 ! i \<and> c2 ! i < int (length eol_options) \<and>
                X ! i ! 3 = X0 ! i ! 3 * 2000 \<and> 0 \<le> X ! i ! 3 \<and> X ! i ! 3 \<le> 2000 \<and>
                X ! i ! 4 = X0 ! i ! 4 * 20 \<and> 0 \<le> X ! i ! 4 \<and> X ! i ! 4 \<le> 20 \<and>
                X ! i ! 5 = X0 ! i ! 5 * 30 \<and> 0 \<le> X ! i ! 5 \<and> X ! i ! 5 \<le> 30 \<and>
                X ! i ! 6 = X0 ! i ! 6 * 5 \<and> 0 \<le> X ! i ! 6 \<and> X ! i ! 6 \<le> 5 \<and>
                (\<forall>j. 7 \<le> j \<and> j < 13 \<longrightarrow>
                   X ! i ! j = X0 ! i ! j \<and> 0 \<le> X ! i ! j \<and> X ! i ! j < 1))) \<and>
     simple_training_data L g = synthetic_data L 1000 (np_seed L 42) \<and>
     X_train (fst (fallback_training_data L g)) = fst (np_rand L 100 13 (np_seed L 42)) \<and>
     length (X_train (fst (fallback_training_data L g))) = 100 \<and>
     (\<forall>r\<in>set (X_train (fst (fallback_training_data L g))).
        length r = 13 \<and> (\<forall>j<13. 0 \<le> r ! j \<and> r ! j < 1))"
proof -
  let ?U = "fst (np_rand L n 13 s0)"
  let ?sa = "snd (np_rand L n 13 s0)"
  let ?ca = "fst (np_randint_vec L 0 (int (length metals)) n ?sa)"
  let ?sb = "snd (np_randint_vec L 0 (int (length metals)) n ?sa)"
  let ?cb = "fst (np_randint_vec L 0 (int (length processes)) n ?sb)"
  let ?sc = "snd (np_randint_vec L 0 (int (length processes)) n ?sb)"
  let ?cc = "fst (np_randint_vec L 0 (int (length eol_options)) n ?sc)"
  let ?X = "X_train (fst (synthetic_data L n s0))"
  have u: "\<And>s. 0 \<le> fst (np_random_sample L s) \<and> fst (np_random_sample L s) < 1"
    using uniform by blast
  have ig: "\<And>lo hi s. lo < hi \<Longrightarrow>
      lo \<le> fst (np_randint L lo hi s) \<and> fst (np_randint L lo hi s) < hi"
    using integers by blast
  have lenX: "length ?X = n" by (rule length_synthetic_X)
  have rows: "length (?X ! i) = 13 \<and>
      ?X ! i ! 0 = real_of_int (?ca ! i) \<and> 0 \<le> ?ca ! i \<and> ?ca ! i < int (length metals) \<and>
      ?X ! i ! 1 = real_of_int (?cb ! i) \<and> 0 \<le> ?cb ! i \<and> ?cb ! i < int (length processes) \<and>
      ?X ! i ! 2 = real_of_int (?cc ! i) \<and> 0 \<le> ?cc ! i \<and> ?cc ! i < int (length eol_options) \<and>
      ?X ! i ! 3 = ?U ! i ! 3 * 2000 \<and> 0 \<le> ?X ! i ! 3 \<and> ?X ! i ! 3 \<le> 2000 \<and>
      ?X ! i ! 4 = ?U ! i ! 4 * 20 \<and> 0 \<le> ?X ! i ! 4 \<and> ?X ! i ! 4 \<le> 20 \<and>
      ?X ! i ! 5 = ?U ! i ! 5 * 30 \<and> 0 \<le> ?X ! i ! 5 \<and> ?X ! i ! 5 \<le> 30 \<and>
      ?X ! i ! 6 = ?U ! i ! 6 * 5 \<and> 0 \<le> ?X ! i ! 6 \<and> ?X ! i ! 6 \<le> 5 \<and>
      (\<forall>j. 7 \<le> j \<and> j < 13 \<longrightarrow> ?X ! i ! j = ?U ! i ! j \<and> 0 \<le> ?X ! i ! j \<and> ?X ! i ! j < 1)"
    if i: "i < n" for i
  proof -
    have mem: "?X ! i \<in> set ?X" by (rule nth_mem) (simp add: lenX i)
    note b = synthetic_row [OF u ig mem]
    have "?U ! i \<in> set ?U" by (rule nth_mem) (simp add: np_rand_shape(1) i)
    then have len0: "length (?U ! i) = 13" by (rule np_rand_shape(2))
    note e = synthetic_X_nth [OF i, of L s0]
    have m0: "?ca ! i \<in> set ?ca" by (rule nth_mem) (simp add: length_np_randint_vec i)
    have m1: "?cb ! i \<in> set ?cb" by (rule nth_mem) (simp add: length_np_randint_vec i)
    have m2: "?cc ! i \<in> set ?cc" by (rule nth_mem) (simp add: length_np_randint_vec i)
    have k0: "0 \<le> ?ca ! i \<and> ?ca ! i < int (length metals)"
      using m0 by (rule np_randint_vec_range [rotated]) (rule ig, simp add: metals_def)
    have k1: "0 \<le> ?cb ! i \<and> ?cb ! i < int (length processes)"
      using m1 by (rule np_randint_vec_range [rotated]) (rule ig, simp add: processes_def)
    have k2: "0 \<le> ?cc ! i \<and> ?cc ! i < int (length eol_options)"
      using m2 by (rule np_randint_vec_range [rotated]) (rule ig, simp add: eol_options_def)
    have e0: "?X ! i ! 0 = real_of_int (?ca ! i)" by (simp add: e len0)
    have e1: "?X ! i ! 1 = real_of_int (?cb ! i)" by (simp add: e len0)
    have e2: "?X ! i ! 2 = real_of_int (?cc ! i)" by (simp add: e len0)
    have e3: "?X ! i ! 3 = ?U ! i ! 3 * 2000" by (simp add: e len0)
    have e4: "?X ! i ! 4 = ?U ! i ! 4 * 20" by (simp add: e len0)
    have e5: "?X ! i ! 5 = ?U ! i ! 5 * 30" by (simp add: e len0)
    have e6: "?X ! i ! 6 = ?U ! i ! 6 * 5" by (simp add: e len0)
    have e7: "?X ! i ! j = ?U ! i ! j" if "7 \<le> j" for j
      using that by (simp add: e)
    from b k0 k1 k2 e0 e1 e2 e3 e4 e5 e6 e7 show ?thesis by metis
  qed
  have a: "simple_training_data L g = synthetic_data L 1000 (np_seed L 42)"
    by (simp add: simple_training_data_def)
  have c: "length (X_train (fst (fallback_training_data L g))) = 100"
    by (simp add: fallback_X np_rand_shape(1))
  have d: "\<forall>r\<in>set (X_train (fst (fallback_training_data L g))).
        length r = 13 \<and> (\<forall>j<13. 0 \<le> r ! j \<and> r ! j < 1)"
  proof
    fix r
    assume "r \<in> set (X_train (fst (fallback_training_data L g)))"
    then have r: "r \<in> set (fst (np_rand L 100 13 (np_seed L 42)))"
      by (simp add: fallback_X)
    have len: "length r = 13" using r by (rule np_rand_shape(2))
    have "0 \<le> r ! j \<and> r ! j < 1" if "j < 13" for j
      using np_rand_range [OF u r, of "r ! j"] that len by simp
    with len show "length r = 13 \<and> (\<forall>j<13. 0 \<le> r ! j \<and> r ! j < 1)" by blast
  qed
  from lenX rows a fallback_X [of L g] c d show ?thesis
    unfolding Let_def by (intro conjI allI impI) blast+
qed

theorem feature_matrix_witness:
  "length (X_train (fst (simple_training_data counter_library 0))) = 1000 \<and>
   length (X_train (fst (simple_training_data counter_library 0)) ! 0) = 13 \<and>
   X_train (fst (simple_training_data counter_library 0)) ! 0 ! 0 = 2 \<and>
   X_train (fst (simple_training_data counter_library 0)) ! 0 ! 1 = 2 \<and>
   X_train (fst (simple_training_data counter_library 0)) ! 0 ! 2 = 0 \<and>
   fst (np_rand counter_library 1000 13 (np_seed counter_library 42)) ! 0 ! 3 = 13 / 16 \<and>
   X_train (fst (simple_training_data counter_library 0)) ! 0 ! 3 = 1625 \<and>
   X_train (fst (simple_training_data counter_library 0)) ! 0 ! 4 = 35 / 2 \<and>
   X_train (fst (simple_training_data counter_library 0)) ! 0 ! 7 = 1 / 16 \<and>
   length (X_train (fst (fallback_training_data counter_library 0))) = 100 \<and>
   X_train (fst (fallback_training_data counter_library 0)) ! 0 ! 3 = 13 / 16"
proof -
  have u: "\<forall>s. 0 \<le> fst (np_random_sample counter_library s) \<and>
      fst (np_random_sample counter_library s) < 1"
    using counter_uniform by blast
  have i: "\<forall>lo hi s. lo < hi \<longrightarrow> lo \<le> fst (np_randint counter_library lo hi s) \<and>
      fst (np_randint counter_library lo hi s) < hi"
    using counter_integers by blast
  note t = feature_matrix [OF u i, of 1000 "np_seed counter_library 42" 0, unfolded Let_def]
  have s: "simple_training_data counter_library 0 =
      synthetic_data counter_library 1000 (np_seed counter_library 42)"
    using t by blast
  have f: "X_train (fst (fallback_training_data counter_library 0)) =
      fst (np_rand counter_library 100 13 (np_seed counter_library 42))"
    using t by blast
  have row: "fst (np_rand counter_library n 13 (np_seed counter_library 42)) ! 0 ! j =
      real ((42 + j) mod 16) / 16" if "0 < n" "j < 13" for n j
    using that by (simp add: np_rand_def nth0_draws counter_sample_nth counter_seed)
  have c0: "fst (np_randint_vec counter_library 0 (int (length metals)) 1000
      (snd (np_rand counter_library 1000 13 (np_seed counter_library 42)))) ! 0 = 2"
    by (simp add: counter_randint_nth0 counter_rand_state counter_seed metals_def)
  have c1: "fst (np_randint_vec counter_library 0 (int (length processes)) 1000
      (snd (np_randint_vec counter_library 0 (int (length metals)) 1000
         (snd (np_rand counter_library 1000 13 (np_seed counter_library 42)))))) ! 0 = 2"
    by (simp add: counter_randint_nth0 counter_randint_state counter_rand_state counter_seed
        processes_def)
  have c2: "fst (np_randint_vec counter_library 0 (int (length eol_options)) 1000
      (snd (np_randint_vec counter_library 0 (int (length processes)) 1000
         (snd (np_randint_vec counter_library 0 (int (length metals)) 1000
            (snd (np_rand counter_library 1000 13 (np_seed counter_library 42)))))))) ! 0 = 0"
    by (simp add: counter_randint_nth0 counter_randint_state counter_rand_state counter_seed
        eol_options_def)
  from t have r0: "length (X_train (fst (synthetic_data counter_library 1000
        (np_seed counter_library 42))) ! 0) = 13 \<and>
      X_train (fst (synthetic_data counter_library 1000 (np_seed counter_library 42))) ! 0 ! 0 = 2 \<and>
      X_train (fst (synthetic_data counter_library 1000 (np_seed counter_library 42))) ! 0 ! 1 = 2 \<and>
      X_train (fst (synthetic_data counter_library 1000 (np_seed counter_library 42))) ! 0 ! 2 = 0 \<and>
      X_train (fst (synthetic_data counter_library 1000 (np_seed counter_library 42))) ! 0 ! 3 = 1625 \<and>
      X_train (fst (synthetic_data counter_library 1000 (np_seed counter_library 42))) ! 0 ! 4 = 35 / 2 \<and>
      X_train (fst (synthetic_data counter_library 1000 (np_seed counter_library 42))) ! 0 ! 7 = 1 / 16"
    using c0 c1 c2 row [of 1000 3] row [of 1000 4] row [of 1000 7] by simp
  from t have len: "length (X_train (fst (synthetic_data counter_library 1000
        (np_seed counter_library 42)))) = 1000"
    and lenf: "length (X_train (fst (fallback_training_data counter_library 0))) = 100"
    by blast+
  show ?thesis
    using r0 len lenf row [of 1000 3] row [of 100 3] by (simp add: s f)
qed

lemma five_eighths_not_int: "(5 / 8 :: real) \<notin> \<int>"
proof
  assume "(5 / 8 :: real) \<in> \<int>"
  then obtain k :: int where "(5 / 8 :: real) = real_of_int k"
    by (auto elim: Ints_cases)
  then have "real_of_int 5 = real_of_int (8 * k)" by simp
  then have "(5 :: int) = 8 * k" by (simp only: of_int_eq_iff)
  then show False by presburger
qed

text \<open>
  Claim C9 as stated has column 0 of either generator hold an integer code. The first
  entry of the matrix of \<open>create_fallback_model\<close> is the first uniform draw after seeding,
  which for the counter library is 5/8.
\<close>

theorem fallback_features_not_codes:
  "hd (X_train (fst (fallback_training_data counter_library 0))) ! 0 = 5 / 8 \<and>
   hd (X_train (fst (fallback_training_data counter_library 0))) ! 0 \<notin> \<int>"
proof -
  have v: "hd (X_train (fst (fallback_training_data counter_library 0))) ! 0 = 5 / 8"
    by (simp add: fallback_X hd_np_rand counter_sample_nth counter_seed)
  have "hd (X_train (fst (fallback_training_data counter_library 0))) ! 0 \<notin> \<int>"
    unfolding v by (rule five_eighths_not_int)
  with v show ?thesis by (intro conjI)
qed

text \<open>
  Claim C4, as amended. Neither generator takes a seed or a sample count: each calls
  \<^verbatim>\<open>np.random.seed(42)\<close> itself and uses its own fixed sample count. Two runs, whatever
  states \<open>g\<close> and \<open>g'\<close> the process-wide generator was in when they started, produce the
  same feature and target matrices (and the same artifact), namely those generated from
  the state that seed 42 gives.
\<close>

theorem generator_reproducible:
  "simple_training_data L g = simple_training_data L g' \<and>
   simple_training_data L g = synthetic_data L 1000 (np_seed L 42) \<and>
   fallback_training_data L g = fallback_training_data L g' \<and>
   create_simple_fallback_model L g = create_simple_fallback_model L g' \<and>
   create_fallback_model L g = create_fallback_model L g'"
  by (simp add: simple_training_data_def fallback_training_data_def
      create_simple_fallback_model_def create_fallback_model_def)

text \<open>
  Claim C4 as stated has the generator accept a seed. The one way to hand a seed to
  \<open>create_simple_fallback_model\<close> is to seed the process-wide generator before the call.
  Doing so with 7 gives the features of seed 42, not those the generator body produces
  from seed 7.
\<close>

theorem caller_seed_ignored:
  "X_train (fst (simple_training_data counter_library (np_seed counter_library 7))) =
     X_train (fst (simple_training_data counter_library (np_seed counter_library 42))) \<and>
   hd (X_train (fst (simple_training_data counter_library (np_seed counter_library 7)))) ! 7 = 1 / 16 \<and>
   hd (X_train (fst (synthetic_data counter_library 1000 (np_seed counter_library 7)))) ! 7 = 7 / 8"
  by (simp add: simple_training_data_def synthetic_hd_feature counter_sample_nth counter_seed)

text \<open>
  Claim C3 at a row whose Process\_Type code is that of Recycled. The fitted encoder gives
  Recycled the code 2 and Primary the code 1, and the loops test the code against 1: a row
  with code 2 gets factor 1.0 and the low baselines 0.3 and 20 (energy is drawn around 50),
  a row with code 1 gets factor 0.3 and the high baselines 0.8 and 70 (energy is drawn
  around 15).
\<close>

theorem recycled_code_gets_primary_baseline:
  "le_transform (le_fit LabelEncoder processes) ''Recycled'' = Inr 2 \<and>
   le_transform (le_fit LabelEncoder processes) ''Primary'' = Inr 1 \<and>
   process_factor (x # 2 # xs) = 1 \<and> base_circ (x # 2 # xs) = 0.3 \<and>
   recycled_content_mean (x # 2 # xs) = 20 \<and>
   process_factor (x # 1 # xs) = 0.3 \<and> base_circ (x # 1 # xs) = 0.8 \<and>
   recycled_content_mean (x # 1 # xs) = 70 \<and>
   hd (fst (env_targets L [x # 2 # xs] s)) ! 0 = max 1 (fst (np_normal L 50 15 s)) \<and>
   hd (fst (env_targets L [x # 1 # xs] s)) ! 0 = max 1 (fst (np_normal L 15 15 s)) \<and>
   hd (fst (circ_targets L [x # 2 # xs] s)) ! 0 = max 0 (min 1 (fst (np_normal L 0.3 0.1 s))) \<and>
   hd (fst (circ_targets L [x # 1 # xs] s)) ! 0 = max 0 (min 1 (fst (np_normal L 0.8 0.1 s)))"
  by (simp add: le_transform_def le_fit_def LabelEncoder_def processes_def
      process_factor_def base_circ_def recycled_content_mean_def case_prod_beta)

section \<open>The artifact store: loading and saving\<close>













text \<open>
  The two save operations in general: the one of create\_fallback\_model.py creates the
  \<^verbatim>\<open>models\<close> directory and writes the artifact; both report a failure of open or dump
  as False with the error printed; the one of test\_models.py fails whenever the directory
  is missing.
\<close>

lemma save_fallback_model_creates_directory:
  assumes "''models'' \<notin> dirs fs" and "files fs ''models'' = None"
    and "''models'' \<notin> no_access fs"
    and "''models/railway_fallback_model.pkl'' \<notin> dirs fs"
    and "''models/railway_fallback_model.pkl'' \<notin> no_access fs"
    and "\<not> no_space fs"
    and "fst (create_simple_fallback_model L g) = Inr model_data"
    and "dumps P model_data = Some b"
  shows "save_fallback_model L P fs g =
     (Inr True,
      fs\<lparr>dirs := insert ''models'' (dirs fs),
         files := (files fs)(''models/railway_fallback_model.pkl'' \<mapsto> Some b)\<rparr>,
      [Saved ''models/railway_fallback_model.pkl''])"
  using assms
  by (simp add: save_fallback_model_def makedirs_def open_wb_def pickle_dump_def dirname_def)

lemma save_fallback_model_reports_failure:
  assumes "makedirs fs ''models'' = Inr fs0"
    and "fst (create_simple_fallback_model L g) = Inr model_data"
  shows "\<exists>ok fs' out. save_fallback_model L P fs g = (Inr ok, fs', out) \<and>
     (if ok then out = [Saved ''models/railway_fallback_model.pkl'']
      else \<exists>e. out = [SaveFailed e])"
  using assms
  by (auto simp: save_fallback_model_def split: sum.splits)

lemma save_test_models_reports_failure:
  "\<exists>ok fs' out. save_fallback_model_test_models P fs model_data = (ok, fs', out) \<and>
     (if ok then out = [Saved ''models/fallback_model.pkl'']
      else \<exists>e. out = [SaveFailed e])"
  by (auto simp: save_fallback_model_test_models_def split: sum.splits)

lemma save_test_models_needs_directory:
  "''models'' \<notin> dirs fs \<Longrightarrow>
   \<exists>e. save_fallback_model_test_models P fs model_data = (False, fs, [SaveFailed e])"
  by (auto simp: save_fallback_model_test_models_def open_wb_def dirname_def)

text \<open>
  Claim C7 at a file system without a \<^verbatim>\<open>models\<close> directory.
  \<open>save_fallback_model\<close> of test\_models.py creates no directory: opening the file
  fails, it returns False and writes nothing. \<open>save_fallback_model\<close> of
  create\_fallback\_model.py creates the directory, writes the pickled artifact and
  returns True.
\<close>

theorem save_without_models_directory:
  "save_fallback_model_test_models identity_pickle empty_disk (fallback_model_data (10 :: nat, 42 :: nat) (10, 42))
     = (False, empty_disk, [SaveFailed (FileNotFoundError ''models/fallback_model.pkl'')]) \<and>
   save_fallback_model counter_library identity_pickle empty_disk 0
     = (Inr True,
        \<lparr>dirs = {''models''},
         files = [''models/railway_fallback_model.pkl'' \<mapsto> Some (simple_model_data (50, 42) (50, 42))],
         no_access = {}, no_space = False\<rparr>,
        [Saved ''models/railway_fallback_model.pkl''])"
  by (simp add: save_fallback_model_test_models_def save_fallback_model_def open_wb_def
      makedirs_def pickle_dump_def dirname_def empty_disk_def identity_pickle_def
      counter_simple_builder)

section \<open>The health poller\<close>

declare check_health_loop.simps [simp del]

lemma loop_exhausted:
  "attempt \<le> max_attempts \<Longrightarrow>
   \<forall>j. attempt \<le> j \<and> j < max_attempts \<longrightarrow> http_get w (health_url port) j \<noteq> Response 200 \<Longrightarrow>
   fst (check_health_loop w port attempt) = False \<and>
   requests_issued (snd (check_health_loop w port attempt)) = max_attempts - attempt \<and>
   sleeps_taken (snd (check_health_loop w port attempt)) = max_attempts - attempt"
proof (induction w port attempt rule: check_health_loop.induct)
  case (1 w port attempt)
  show ?case
  proof (cases "attempt < max_attempts")
    case False
    then show ?thesis
      by (simp add: check_health_loop.simps [of w port attempt] requests_issued_def sleeps_taken_def)
  next
    case True
    then have here: "http_get w (health_url port) attempt \<noteq> Response 200"
      using "1.prems" by simp
    have later: "\<forall>j. Suc attempt \<le> j \<and> j < max_attempts \<longrightarrow>
        http_get w (health_url port) j \<noteq> Response 200"
      using "1.prems" by simp
    show ?thesis
    proof (cases "http_get w (health_url port) attempt")
      case (Response status_code)
      with here have ne: "status_code \<noteq> 200" by simp
      from "1.IH"(1) [OF True Response ne] True later
      show ?thesis
        by (simp add: check_health_loop.simps [of w port attempt] Response ne
            requests_issued_def sleeps_taken_def case_prod_beta) 
    next
      case (RequestException e)
      from "1.IH"(2) [OF True RequestException] True later
      show ?thesis
        by (simp add: check_health_loop.simps [of w port attempt] RequestException
            requests_issued_def sleeps_taken_def case_prod_beta)
    qed
  qed
qed

lemma loop_success:
  "attempt \<le> k \<Longrightarrow> k < max_attempts \<Longrightarrow> http_get w (health_url port) k = Response 200 \<Longrightarrow>
   \<forall>j. attempt \<le> j \<and> j < k \<longrightarrow> http_get w (health_url port) j \<noteq> Response 200 \<Longrightarrow>
   fst (check_health_loop w port attempt) = True \<and>
   requests_issued (snd (check_health_loop w port attempt)) = Suc k - attempt \<and>
   sleeps_taken (snd (check_health_loop w port attempt)) = k - attempt"
proof (induction w port attempt rule: check_health_loop.induct)
  case (1 w port attempt)
  from "1.prems" have lt: "attempt < max_attempts" by simp
  show ?case
  proof (cases "attempt = k")
    case True
    with "1.prems" lt show ?thesis
      by (simp add: check_health_loop.simps [of w port k] requests_issued_def sleeps_taken_def)
  next
    case False
    with "1.prems" have less: "attempt < k" by simp
    then have here: "http_get w (health_url port) attempt \<noteq> Response 200"
      using "1.prems" by simp
    have later: "\<forall>j. Suc attempt \<le> j \<and> j < k \<longrightarrow> http_get w (health_url port) j \<noteq> Response 200"
      using "1.prems" by simp
    have le: "Suc attempt \<le> k" using less by simp
    show ?thesis
    proof (cases "http_get w (health_url port) attempt")
      case (Response status_code)
      with here have ne: "status_code \<noteq> 200" by simp
      from "1.IH"(1) [OF lt Response ne le "1.prems"(2) "1.prems"(3) later] less lt
      show ?thesis
        by (simp add: check_health_loop.simps [of w port attempt] Response ne
            requests_issued_def sleeps_taken_def Suc_diff_le case_prod_beta)
    next
      case (RequestException e)
      from "1.IH"(2) [OF lt RequestException le "1.prems"(2) "1.prems"(3) later] less lt
      show ?thesis
        by (simp add: check_health_loop.simps [of w port attempt] RequestException
            requests_issued_def sleeps_taken_def Suc_diff_le case_prod_beta)
    qed
  qed
qed


text \<open>
  Claim C5. When attempt \<open>k\<close> (counted from 0, within the budget of 30) is the first to
  receive status 200, \<open>check_health\<close> returns True having issued exactly \<open>k + 1\<close>
  requests, with one sleep after each of the \<open>k\<close> failed attempts. When no attempt of
  the 30 receives status 200, it returns False having issued exactly 30 requests. A failed
  attempt is a raised \<open>RequestException\<close> or a status other than 200; the function is
  total and returns a boolean in every case.
\<close>

theorem check_health_attempts:
  "(k < max_attempts \<and> http_get w (health_url (port_of w)) k = Response 200 \<and>
      (\<forall>j<k. http_get w (health_url (port_of w)) j \<noteq> Response 200) \<longrightarrow>
      fst (check_health w) = True \<and>
      requests_issued (snd (check_health w)) = k + 1 \<and>
      sleeps_taken (snd (check_health w)) = k) \<and>
   ((\<forall>j<max_attempts. http_get w (health_url (port_of w)) j \<noteq> Response 200) \<longrightarrow>
      fst (check_health w) = False \<and>
      requests_issued (snd (check_health w)) = 30 \<and>
      sleeps_taken (snd (check_health w)) = 30)"
proof (intro conjI impI)
  assume a: "k < max_attempts \<and> http_get w (health_url (port_of w)) k = Response 200 \<and>
      (\<forall>j<k. http_get w (health_url (port_of w)) j \<noteq> Response 200)"
  then have "fst (check_health_loop w (port_of w) 0) = True \<and>
      requests_issued (snd (check_health_loop w (port_of w) 0)) = Suc k - 0 \<and>
      sleeps_taken (snd (check_health_loop w (port_of w) 0)) = k - 0"
    by (intro loop_success) simp_all
  then show "fst (check_health w) = True"
    and "requests_issued (snd (check_health w)) = k + 1"
    and "sleeps_taken (snd (check_health w)) = k"
    by (simp_all add: check_health_def)
next
  assume "\<forall>j<max_attempts. http_get w (health_url (port_of w)) j \<noteq> Response 200"
  then have "fst (check_health_loop w (port_of w) 0) = False \<and>
      requests_issued (snd (check_health_loop w (port_of w) 0)) = max_attempts - 0 \<and>
      sleeps_taken (snd (check_health_loop w (port_of w) 0)) = max_attempts - 0"
    by (intro loop_exhausted) simp_all
  then show "fst (check_health w) = False"
    and "requests_issued (snd (check_health w)) = 30"
    and "sleeps_taken (snd (check_health w)) = 30"
    by (simp_all add: check_health_def max_attempts_def)
qed

theorem check_health_attempts_witness:
  "fst (check_health ready_on_third) = True \<and>
   requests_issued (snd (check_health ready_on_third)) = 3 \<and>
   sleeps_taken (snd (check_health ready_on_third)) = 2 \<and>
   fst (check_health never_ready) = False \<and>
   requests_issued (snd (check_health never_ready)) = 30 \<and>
   sleeps_taken (snd (check_health never_ready)) = 30"
proof -
  have third: "2 < max_attempts \<and>
      http_get ready_on_third (health_url (port_of ready_on_third)) 2 = Response 200 \<and>
      (\<forall>j<2. http_get ready_on_third (health_url (port_of ready_on_third)) j \<noteq> Response 200)"
    by (simp add: max_attempts_def ready_on_third_def)
  have never: "\<forall>j<max_attempts.
      http_get never_ready (health_url (port_of never_ready)) j \<noteq> Response 200"
    by (simp add: never_ready_def)
  from check_health_attempts [of 2 ready_on_third] third
    check_health_attempts [of 0 never_ready] never
  show ?thesis by simp
qed

end
